theory Spec2Isabelle
  imports Complex_Main "HOL-Library.Word"
begin

section \<open>PostgresStore: a tile store on one relational table\<close>

text \<open>
  The store keeps opaque byte blobs addressed by (zoom, idx) in one table
  \<^verbatim>\<open>(zoom smallint, idx bigint, tile bytea, PRIMARY KEY (zoom, idx))\<close>.
  JavaScript numbers are modelled as rationals (exact on the integers and on the
  negative powers of four that \<^verbatim>\<open>Math.pow(4, zoom)\<close> produces), the zoom and
  index columns as unbounded integers, a Buffer as a list of bytes, and a promise as
  the pair of its outcome (\<open>Inl\<close> a rejection, \<open>Inr\<close> a value) and the state after
  it has settled. Arguments that the code passes through \<^verbatim>\<open>core.isInteger\<close>
  are integers by type here, so those checks always pass.
\<close>

subsection \<open>Values, rows and statements\<close>

type_synonym blob = "8 word list"

datatype sqlval = VUndefined | VNum rat | VText string | VBytes blob

record row =
  r_zoom :: int
  r_idx :: int
  r_tile :: blob

text \<open>A row of a result set: only the columns the statement selects are present.\<close>

record result =
  c_idx :: "int option"
  c_tile :: "blob option"
  c_len :: "int option"

text \<open>
  One conjunct of the WHERE clause of the range scan; the number is the position
  of its parameter (\<^verbatim>\<open>$n\<close>).
\<close>

datatype cond = ZoomEq nat | LenLt nat | LenGe nat | IdxGe nat | IdxLt nat

text \<open>
  The statement texts of the source:
  \<^item> \<open>GetTileSql\<close>: \<^verbatim>\<open>SELECT tile FROM $1~ WHERE zoom = $2 AND idx = $3;\<close>
  \<^item> \<open>GetTileSizeSql\<close>: \<^verbatim>\<open>SELECT length(tile) AS len FROM $1~ WHERE zoom = $2 AND idx = $3;\<close>
  \<^item> \<open>SetSql\<close>: \<^verbatim>\<open>UPDATE $1~ SET tile=$4 WHERE zoom = $2 AND idx = $3;
      INSERT INTO $1~ (zoom, idx, tile) SELECT $2, $3, $4
      WHERE NOT EXISTS (SELECT 1 FROM $1~ WHERE zoom = $2 AND idx = $3);\<close>
  \<^item> \<open>DeleteSql\<close>: \<^verbatim>\<open>DELETE FROM $1~ WHERE zoom = $2 AND idx = $3;\<close>
  \<^item> \<open>CreateSql\<close>, \<open>ProbeSql\<close>: the two bootstrap statements of the constructor
\<close>

datatype sql = GetTileSql | GetTileSizeSql | SetSql | DeleteSql | CreateSql | ProbeSql

text \<open>
  The object the range query builds:
  \<^verbatim>\<open>new QueryStream('SELECT ' + fields + ' FROM $1~ WHERE ' + conds, params)\<close>.
  The flag says whether \<^verbatim>\<open>fields\<close> is \<^verbatim>\<open>idx, tile\<close> or \<^verbatim>\<open>idx\<close>; the list
  holds the conjuncts of \<^verbatim>\<open>conds\<close> in order.
\<close>

datatype query_stream = QueryStream bool "cond list" "sqlval list"

subsection \<open>The database client\<close>

text \<open>
  The pg-promise database object (\<^verbatim>\<open>self.client = postgres(clientOpts)\<close>) and the
  Postgres table behind it are not part of the repository. A connection holds the table
  as the list of its rows in storage order, a schedule of faults (each call consumes
  the head; \<open>True\<close> makes the call fail before it touches the table; an empty
  schedule means no fault) and the log of the calls made. The query methods
  \<^verbatim>\<open>none\<close> and \<^verbatim>\<open>oneOrNone\<close> format the statement (the name placeholder
  \<^verbatim>\<open>$1~\<close> and the values) and the statement has its SQL meaning on the row list.
  The object has no method \<^verbatim>\<open>batchAsync\<close>: the source promisifies only
  \<^verbatim>\<open>PostgresStore.prototype\<close>.
\<close>

record entry =
  e_query :: "sql option"
  e_params :: "sqlval list"

datatype call =
  None_call "sql option" "sqlval list"
  | OneOrNone_call "sql option" "sqlval list"
  | Stream_call query_stream

record conn =
  rows :: "row list"
  faults :: "bool list"
  calls :: "call list"

datatype reason = Fault | QueryError | ResultError

text \<open>Positional parameters: \<^verbatim>\<open>$n\<close> is the n-th element, counted from 1.\<close>

definition arg :: "sqlval list \<Rightarrow> nat \<Rightarrow> sqlval option" where
  "arg ps n = (if 0 < n \<and> n \<le> length ps then Some (ps ! (n - 1)) else None)"

definition num_arg :: "sqlval list \<Rightarrow> nat \<Rightarrow> rat option" where
  "num_arg ps n = (case arg ps n of Some (VNum v) \<Rightarrow> Some v | _ \<Rightarrow> None)"

definition is_integer :: "rat \<Rightarrow> bool" where
  "is_integer v = (of_int \<lfloor>v\<rfloor> = v)"

definition keyed :: "rat \<Rightarrow> rat \<Rightarrow> row \<Rightarrow> bool" where
  "keyed z i r = (of_int (r_zoom r) = z \<and> of_int (r_idx r) = i)"

definition tile_column :: "row \<Rightarrow> result" where
  "tile_column r = \<lparr>c_idx = None, c_tile = Some (r_tile r), c_len = None\<rparr>"

definition len_column :: "row \<Rightarrow> result" where
  "len_column r = \<lparr>c_idx = None, c_tile = None, c_len = Some (int (length (r_tile r)))\<rparr>"

text \<open>
  The meaning of a statement on the table: the table afterwards and the rows
  returned, or \<open>None\<close> when the server rejects it (a parameter missing or of the
  wrong type).
\<close>

fun exec :: "sql \<Rightarrow> sqlval list \<Rightarrow> row list \<Rightarrow> (row list \<times> result list) option" where
  "exec GetTileSql ps t =
     (case (num_arg ps 2, num_arg ps 3) of
        (Some z, Some i) \<Rightarrow> Some (t, map tile_column (filter (keyed z i) t))
      | _ \<Rightarrow> None)"
| "exec GetTileSizeSql ps t =
     (case (num_arg ps 2, num_arg ps 3) of
        (Some z, Some i) \<Rightarrow> Some (t, map len_column (filter (keyed z i) t))
      | _ \<Rightarrow> None)"
| "exec SetSql ps t =
     (case (num_arg ps 2, num_arg ps 3, arg ps 4) of
        (Some z, Some i, Some (VBytes d)) \<Rightarrow>
          (let t1 = map (\<lambda>r. if keyed z i r then r\<lparr>r_tile := d\<rparr> else r) t in
           if list_ex (keyed z i) t1 then Some (t1, [])
           else if is_integer z \<and> is_integer i
             then Some (t1 @ [\<lparr>r_zoom = \<lfloor>z\<rfloor>, r_idx = \<lfloor>i\<rfloor>, r_tile = d\<rparr>], [])
           else None)
      | _ \<Rightarrow> None)"
| "exec DeleteSql ps t =
     (case (num_arg ps 2, num_arg ps 3) of
        (Some z, Some i) \<Rightarrow> Some (filter (\<lambda>r. \<not> keyed z i r) t, [])
      | _ \<Rightarrow> None)"
| "exec CreateSql ps t = Some (t, [])"
| "exec ProbeSql ps t = Some (t, [])"

text \<open>A query that is not a statement (JavaScript \<^verbatim>\<open>undefined\<close>) is rejected.\<close>

definition run :: "sql option \<Rightarrow> sqlval list \<Rightarrow> row list \<Rightarrow> (row list \<times> result list) option" where
  "run q ps t = (case q of None \<Rightarrow> None | Some s \<Rightarrow> exec s ps t)"

definition begin_call :: "call \<Rightarrow> conn \<Rightarrow> bool \<times> conn" where
  "begin_call c db =
     (case faults db of
        [] \<Rightarrow> (False, db\<lparr>calls := calls db @ [c]\<rparr>)
      | f # fs \<Rightarrow> (f, db\<lparr>faults := fs, calls := calls db @ [c]\<rparr>))"

text \<open>\<^verbatim>\<open>client.none\<close>: the statement must return no row.\<close>

definition client_none :: "sql option \<Rightarrow> sqlval list \<Rightarrow> conn \<Rightarrow> (reason + unit) \<times> conn" where
  "client_none q ps db =
     (case begin_call (None_call q ps) db of
        (f, db1) \<Rightarrow>
          if f then (Inl Fault, db1)
          else (case run q ps (rows db1) of
                  None \<Rightarrow> (Inl QueryError, db1)
                | Some (t, rs) \<Rightarrow>
                    if rs = [] then (Inr (), db1\<lparr>rows := t\<rparr>)
                    else (Inl ResultError, db1\<lparr>rows := t\<rparr>)))"

text \<open>\<^verbatim>\<open>client.oneOrNone\<close>: no row gives null, one row gives the row, more is an error.\<close>

definition oneOrNone ::
  "sql option \<Rightarrow> sqlval list \<Rightarrow> conn \<Rightarrow> (reason + result option) \<times> conn" where
  "oneOrNone q ps db =
     (case begin_call (OneOrNone_call q ps) db of
        (f, db1) \<Rightarrow>
          if f then (Inl Fault, db1)
          else (case run q ps (rows db1) of
                  None \<Rightarrow> (Inl QueryError, db1)
                | Some (t, []) \<Rightarrow> (Inr None, db1\<lparr>rows := t\<rparr>)
                | Some (t, [r]) \<Rightarrow> (Inr (Some r), db1\<lparr>rows := t\<rparr>)
                | Some (t, _) \<Rightarrow> (Inl ResultError, db1\<lparr>rows := t\<rparr>)))"

text \<open>
  \<^verbatim>\<open>client.stream\<close> with a QueryStream. Unless the connection fails, the client
  creates the stream and hands it to the initialiser. The text of a QueryStream goes
  to the server as written, with its values as bind parameters; the name placeholder
  \<^verbatim>\<open>$1~\<close> is syntax of pg-promise's own formatting, which is not applied to it, so
  the server rejects the statement and the stream fails before it delivers a row.
  An opened stream is the rows it delivers and how it ends (\<open>None\<close>: normally).
\<close>

datatype opened = NotOpened reason | Opened "result list" "reason option"

definition stream :: "query_stream \<Rightarrow> conn \<Rightarrow> opened \<times> conn" where
  "stream qs db =
     (case begin_call (Stream_call qs) db of
        (f, db1) \<Rightarrow>
          if f then (NotOpened Fault, db1)
          else (Opened [] (Some QueryError), db1))"

subsection \<open>Configuration, errors and the store object\<close>

text \<open>
  \<^verbatim>\<open>self._params\<close>: the query part of the connection URI as
  \<^verbatim>\<open>core.normalizeUri\<close> and \<^verbatim>\<open>core.checkType\<close> leave it. A field that is
  \<^verbatim>\<open>undefined\<close> or deleted is \<open>None\<close>.
\<close>

record params =
  host :: "string option"
  port :: "int option"
  database :: "string option"
  username :: "string option"
  password :: "string option"
  table :: "string option"
  createIfMissing :: "bool option"
  minzoom :: "int option"
  maxzoom :: "int option"
  maxBatchSize :: "int option"

text \<open>The options object of a point read (\<^verbatim>\<open>queryTileAsync\<close>).\<close>

record tile_options =
  o_info :: bool
  o_zoom :: int
  o_idx :: int
  o_getWriteTime :: bool
  o_getTile :: "bool option"
  o_getSize :: "bool option"

text \<open>
  The options object of a range query. Dates are their \<^verbatim>\<open>valueOf()\<close> in
  milliseconds.
\<close>

record query_options =
  q_zoom :: int
  q_idxFrom :: "int option"
  q_idxBefore :: "int option"
  q_dateFrom :: "int option"
  q_dateBefore :: "int option"
  q_biggerThan :: "rat option"
  q_smallerThan :: "rat option"
  q_getTiles :: bool

text \<open>
  An argument of \<^verbatim>\<open>util.format\<close>: a number (or \<^verbatim>\<open>undefined\<close>) for
  \<^verbatim>\<open>%d\<close>, an options object for \<^verbatim>\<open>%j\<close>.
\<close>

datatype fmt_arg = D rat | Undefined | J_tile tile_options | J_query query_options

definition D_opt :: "int option \<Rightarrow> fmt_arg" where
  "D_opt v = (case v of None \<Rightarrow> Undefined | Some n \<Rightarrow> D (of_int n))"

text \<open>
  What went wrong:
  \<^item> \<open>NoTile\<close>: the error of \<^verbatim>\<open>core.throwNoTile()\<close>;
  \<open>Thrown fmt args ctx\<close>: the \<^verbatim>\<open>Error\<close> of \<^verbatim>\<open>throwError\<close>, whose message is
  \<^verbatim>\<open>util.format(fmt, args...) + ctx\<close> with \<open>ctx\<close> the text of
  \<^verbatim>\<open>JSON.stringify(uri)\<close>;
  \<^item> \<open>CoreError\<close>: an error raised by \<^verbatim>\<open>core.checkType\<close>;
  \<^item> \<open>TypeError\<close>: a property read on \<^verbatim>\<open>undefined\<close>;
  \<^item> \<open>Rejected\<close>: a rejection of the database client.
  \<open>moduleUri\<close> is the property \<^verbatim>\<open>attachUri\<close> sets: \<^verbatim>\<open>JSON.stringify(self._params)\<close>,
  kept as the fields it serialises.
\<close>

datatype failure =
  NoTile | Thrown string "fmt_arg list" string | CoreError string | TypeError | Rejected reason

datatype error = Error (failure: failure) (moduleUri: "params option")

type_synonym headers = "(string \<times> string) list"

record store =
  uri :: string
  params :: params
  batchMode :: int
  batch :: "entry list"
  client :: conn
  queries :: "(string \<times> sql) list"
  err :: "reason option"

text \<open>\<^verbatim>\<open>JSON.stringify\<close> of a string: quoted, with quotes and backslashes escaped.\<close>

fun json_escape :: "string \<Rightarrow> string" where
  "json_escape [] = []"
| "json_escape (c # cs) =
     (if c = CHR ''\"'' \<or> c = CHR 0x5C then CHR 0x5C # c # json_escape cs
      else c # json_escape cs)"

definition JSON_stringify :: "string \<Rightarrow> string" where
  "JSON_stringify u = CHR ''\"'' # json_escape u @ [CHR ''\"'']"

definition throwError :: "store \<Rightarrow> string \<Rightarrow> fmt_arg list \<Rightarrow> error" where
  "throwError s fmt args = Error (Thrown fmt args (JSON_stringify (uri s))) None"

definition attachUri :: "store \<Rightarrow> error \<Rightarrow> error" where
  "attachUri s e = Error (failure e) (Some (params s))"

definition throwNoTile :: error where
  "throwNoTile = Error NoTile None"

definition rejected :: "reason \<Rightarrow> error" where
  "rejected r = Error (Rejected r) None"

definition headers :: headers where
  "headers = [(''Content-Type'', ''application/x-protobuf''), (''Content-Encoding'', ''gzip'')]"

text \<open>\<^verbatim>\<open>Math.pow(4, zoom)\<close>\<close>

definition Math_pow4 :: "int \<Rightarrow> rat" where
  "Math_pow4 z = (if 0 \<le> z then 4 ^ nat z else 1 / 4 ^ nat (- z))"

text \<open>
  Comparisons of a number with a configuration field: with \<^verbatim>\<open>undefined\<close> on one
  side JavaScript's \<^verbatim>\<open><\<close> and \<^verbatim>\<open>>\<close> are false.
\<close>

definition js_lt :: "int \<Rightarrow> int option \<Rightarrow> bool" where
  "js_lt a b = (case b of None \<Rightarrow> False | Some v \<Rightarrow> a < v)"

definition js_gt :: "int \<Rightarrow> int option \<Rightarrow> bool" where
  "js_gt a b = (case b of None \<Rightarrow> False | Some v \<Rightarrow> v < a)"

text \<open>\<^verbatim>\<open>!self._params.maxBatchSize\<close>: true for \<^verbatim>\<open>undefined\<close> and for 0.\<close>

definition no_maxBatchSize :: "store \<Rightarrow> bool" where
  "no_maxBatchSize s = (case maxBatchSize (params s) of None \<Rightarrow> True | Some k \<Rightarrow> k = 0)"

definition table_param :: "store \<Rightarrow> sqlval" where
  "table_param s = (case table (params s) of None \<Rightarrow> VUndefined | Some n \<Rightarrow> VText n)"

subsection \<open>Batched writes\<close>

text \<open>\<^verbatim>\<open>startWriting\<close>\<close>

definition startWriting :: "store \<Rightarrow> store" where
  "startWriting s = s\<lparr>batchMode := batchMode s + 1\<rparr>"

text \<open>
  \<^verbatim>\<open>flush\<close> (and \<^verbatim>\<open>flushAsync\<close>, its promisified form). A non-empty pending
  sequence is detached (\<^verbatim>\<open>self.batch = []\<close>); then
  \<^verbatim>\<open>self.client.batchAsync(batch)\<close> calls a property the client does not have, which
  throws a TypeError inside \<^verbatim>\<open>Promise.try\<close>. The \<^verbatim>\<open>.catch(self.attachUri)\<close> is
  chained on the result of that call and is never reached.
\<close>

definition flush :: "store \<Rightarrow> (error + unit) \<times> store" where
  "flush s =
     (let b = batch s in
      if 0 < length b then
        (let s1 = s\<lparr>batch := []\<rparr> in (Inl (Error TypeError None), s1))
      else (Inr (), s))"

text \<open>\<^verbatim>\<open>stopWriting\<close>\<close>

definition stopWriting :: "store \<Rightarrow> (error + unit) \<times> store" where
  "stopWriting s =
     (if batchMode s = 0 then
        (Inl (attachUri s
           (throwError s ''stopWriting() called more times than startWriting()'' [])), s)
      else
        (let s1 = s\<lparr>batchMode := batchMode s - 1\<rparr> in
         case flush s1 of
           (Inl e, s2) \<Rightarrow> (Inl (attachUri s2 e), s2)
         | (Inr u, s2) \<Rightarrow> (Inr (), s2)))"

text \<open>
  \<^verbatim>\<open>_storeDataAsync\<close>. The payload is \<open>None\<close> when the caller passes
  \<^verbatim>\<open>undefined\<close> or \<^verbatim>\<open>null\<close>. \<open>store_entry\<close> is the choice of statement and
  parameters at the head of the function.
\<close>

definition store_entry :: "store \<Rightarrow> int \<Rightarrow> int \<Rightarrow> blob option \<Rightarrow> entry" where
  "store_entry s zoom idx data =
     (case data of
        Some d \<Rightarrow>
          if 0 < length d then
            \<lparr>e_query = map_of (queries s) ''set'',
             e_params = [table_param s, VNum (of_int zoom), VNum (of_int idx), VBytes d]\<rparr>
          else
            \<lparr>e_query = map_of (queries s) ''delete'',
             e_params = [table_param s, VNum (of_int zoom), VNum (of_int idx)]\<rparr>
      | None \<Rightarrow>
          \<lparr>e_query = map_of (queries s) ''delete'',
           e_params = [table_param s, VNum (of_int zoom), VNum (of_int idx)]\<rparr>)"

definition storeDataAsync :: "store \<Rightarrow> int \<Rightarrow> int \<Rightarrow> blob option \<Rightarrow> (error + unit) \<times> store" where
  "storeDataAsync s zoom idx data =
     (let e = store_entry s zoom idx data in
      if batchMode s = 0 \<or> no_maxBatchSize s then
        (case client_none (e_query e) (e_params e) (client s) of
           (Inl r, db) \<Rightarrow> (Inl (attachUri s (rejected r)), s\<lparr>client := db\<rparr>)
         | (Inr u, db) \<Rightarrow> (Inr (), s\<lparr>client := db\<rparr>))
      else
        (let s1 = s\<lparr>batch := batch s @ [e]\<rparr> in
         if js_gt (int (length (batch s1))) (maxBatchSize (params s1)) then
           (case flush s1 of
              (Inl e1, s2) \<Rightarrow> (Inl (attachUri s2 e1), s2)
            | (Inr u, s2) \<Rightarrow> (Inr (), s2))
         else (Inr (), s1)))"

subsection \<open>Point reads and writes\<close>

text \<open>
  The response of \<^verbatim>\<open>queryTileAsync\<close>; the function resolves to \<^verbatim>\<open>false\<close>
  (\<open>None\<close>) when there is no row.
\<close>

record tile_resp =
  resp_tile :: "blob option"
  resp_size :: "int option"

definition queryTileAsync :: "store \<Rightarrow> tile_options \<Rightarrow> (error + tile_resp option) \<times> store" where
  "queryTileAsync s options =
     (let opts = (if o_info options then options\<lparr>o_zoom := - 1, o_idx := 0\<rparr> else options);
          maxEnd = Math_pow4 (o_zoom opts)
      in
      if \<not> o_info options \<and> (o_idx opts < 0 \<or> maxEnd \<le> of_int (o_idx opts)) then
        (Inl (attachUri s
           (throwError s ''Options must satisfy: 0 <= idx < %d. Opts=%j'' [D maxEnd, J_tile opts])), s)
      else if o_getWriteTime opts then
        (Inl (attachUri s
           (throwError s ''getWriteTime is not implemented by Postgres source. Opts=%j''
              [J_tile opts])), s)
      else
        (let getTile = (case o_getTile opts of None \<Rightarrow> True | Some b \<Rightarrow> b);
             getSize = (case o_getSize opts of None \<Rightarrow> False | Some b \<Rightarrow> b);
             query = (if getTile then map_of (queries s) ''getTile''
                      else map_of (queries s) ''getSize'')
         in
         case oneOrNone query
                [table_param s, VNum (of_int (o_zoom opts)), VNum (of_int (o_idx opts))]
                (client s) of
           (Inl r, db) \<Rightarrow> (Inl (attachUri s (rejected r)), s\<lparr>client := db\<rparr>)
         | (Inr None, db) \<Rightarrow> (Inr None, s\<lparr>client := db\<rparr>)
         | (Inr (Some row), db) \<Rightarrow>
             (if getSize \<and> getTile \<and> c_tile row = None then
                (Inl (attachUri s (Error TypeError None)), s\<lparr>client := db\<rparr>)
              else
                (Inr (Some
                   \<lparr>resp_tile = (if getTile then c_tile row else None),
                    resp_size =
                      (if getSize then
                         (if getTile then map_option (\<lambda>t. int (length t)) (c_tile row)
                          else c_len row)
                       else None)\<rparr>),
                 s\<lparr>client := db\<rparr>))))"

text \<open>
  \<^verbatim>\<open>getTile\<close>. The coordinate encoder \<^verbatim>\<open>core.xyToIndex\<close> is not part of the
  repository and is a parameter.
\<close>

definition getTile ::
  "(int \<Rightarrow> int \<Rightarrow> int \<Rightarrow> int) \<Rightarrow> store \<Rightarrow> int \<Rightarrow> int \<Rightarrow> int
     \<Rightarrow> (error + blob option \<times> headers) \<times> store" where
  "getTile xyToIndex s z x y =
     (if js_lt z (minzoom (params s)) \<or> js_gt z (maxzoom (params s)) then
        (Inl (attachUri s throwNoTile), s)
      else
        (case queryTileAsync s
                \<lparr>o_info = False, o_zoom = z, o_idx = xyToIndex x y z, o_getWriteTime = False,
                 o_getTile = None, o_getSize = None\<rparr> of
           (Inl e, s1) \<Rightarrow> (Inl (attachUri s1 e), s1)
         | (Inr None, s1) \<Rightarrow> (Inl (attachUri s1 throwNoTile), s1)
         | (Inr (Some row), s1) \<Rightarrow> (Inr (resp_tile row, headers), s1)))"

text \<open>\<^verbatim>\<open>putTile\<close>\<close>

definition putTile ::
  "(int \<Rightarrow> int \<Rightarrow> int \<Rightarrow> int) \<Rightarrow> store \<Rightarrow> int \<Rightarrow> int \<Rightarrow> int \<Rightarrow> blob option
     \<Rightarrow> (error + unit) \<times> store" where
  "putTile xyToIndex s z x y tile =
     (if js_lt z (minzoom (params s)) \<or> js_gt z (maxzoom (params s)) then
        (Inl (throwError s
           ''This PostgresStore source cannot save zoom %d, because its configured for zooms %d..%d''
           ([D (of_int z)] @ map D_opt [minzoom (params s), maxzoom (params s)])), s)
      else storeDataAsync s z (xyToIndex x y z) tile)"

subsection \<open>Range queries\<close>

text \<open>
  A record of the sequence \<^verbatim>\<open>query\<close> returns. \<open>t_idx\<close> is
  \<^verbatim>\<open>parseInt(value.idx)\<close>, \<open>None\<close> when the column is missing (NaN).
\<close>

record tile_record =
  t_zoom :: int
  t_idx :: "int option"
  t_tile :: "blob option"
  t_headers :: "headers option"

text \<open>
  The promistreamus iterator: created uninitialised, initialised with the stream
  once the client has opened it; it then holds the rows the stream has still to
  deliver and how the stream ends.
\<close>

datatype iterator = Uninitialised | Initialised "result list" "reason option"

definition truthy :: "rat option \<Rightarrow> bool" where
  "truthy v = (case v of None \<Rightarrow> False | Some x \<Rightarrow> x \<noteq> 0)"

text \<open>
  \<^verbatim>\<open>params.push(v); conds += ' AND ... $' + params.length\<close>
\<close>

definition push :: "rat \<Rightarrow> (nat \<Rightarrow> cond) \<Rightarrow> sqlval list \<times> cond list \<Rightarrow> sqlval list \<times> cond list" where
  "push v c pc =
     (let ps = fst pc @ [VNum v] in (ps, snd pc @ [c (length ps)]))"

text \<open>The parameters and the conjuncts of the WHERE clause that \<^verbatim>\<open>query\<close> builds.\<close>

definition scan_of :: "store \<Rightarrow> query_options \<Rightarrow> int \<Rightarrow> rat \<Rightarrow> rat \<Rightarrow> sqlval list \<times> cond list" where
  "scan_of s options start end' maxEnd =
     (let pc0 = ([table_param s, VNum (of_int (q_zoom options))], [ZoomEq 2]);
          pc1 = (if truthy (q_smallerThan options)
                 then push (case q_smallerThan options of Some v \<Rightarrow> v | None \<Rightarrow> 0) LenLt pc0
                 else pc0);
          pc2 = (if truthy (q_biggerThan options)
                 then push (case q_biggerThan options of Some v \<Rightarrow> v | None \<Rightarrow> 0) LenGe pc1
                 else pc1);
          pc3 = (if 0 < start then push (of_int start) IdxGe pc2 else pc2);
          pc4 = (if end' < maxEnd then push end' IdxLt pc3 else pc3)
      in pc4)"

text \<open>
  \<^verbatim>\<open>query\<close>. The client initialises the iterator when it has opened the stream;
  a rejection of \<^verbatim>\<open>client.stream\<close> is logged and kept in \<^verbatim>\<open>self.err\<close>. The
  iterator is returned in either case.
\<close>

definition query :: "store \<Rightarrow> query_options \<Rightarrow> (error + iterator) \<times> store" where
  "query s options =
     (let maxEnd = Math_pow4 (q_zoom options);
          start = (case q_idxFrom options of None \<Rightarrow> 0 | Some a \<Rightarrow> a);
          end' = (case q_idxBefore options of
                    None \<Rightarrow> maxEnd
                  | Some b \<Rightarrow> if b = 0 then maxEnd else of_int b)
      in
      if (case q_smallerThan options of None \<Rightarrow> False | Some v \<Rightarrow> v \<le> 0) then
        (Inl (throwError s
           ''Options may contain a smallerThan numeric parameter that is bigger than 0. Opts=%j''
           [J_query options]), s)
      else if end' < of_int start \<or> maxEnd < end' then
        (Inl (throwError s ''Options must satisfy: idxFrom <= idxBefore <= %d. Opts=%j''
           [D maxEnd, J_query options]), s)
      else if (case (q_dateFrom options, q_dateBefore options) of
                 (Some f, Some b) \<Rightarrow> b \<le> f | _ \<Rightarrow> False) then
        (Inl (throwError s ''Options must satisfy: dateFrom < dateBefore. Opts=%j''
           [J_query options]), s)
      else if \<not> (q_dateBefore options = None \<and> q_dateFrom options = None) then
        (Inl (throwError s ''date filtering is not implemented for postgres store'' []), s)
      else
        (case scan_of s options start end' maxEnd of
           (ps, conds) \<Rightarrow>
             (case stream (QueryStream (q_getTiles options) conds ps) (client s) of
                (NotOpened r, db) \<Rightarrow> (Inr Uninitialised, s\<lparr>client := db, err := Some r\<rparr>)
              | (Opened vs None, db) \<Rightarrow> (Inr (Initialised vs None), s\<lparr>client := db\<rparr>)
              | (Opened vs (Some r), db) \<Rightarrow>
                  (Inr (Initialised vs (Some r)), s\<lparr>client := db, err := Some r\<rparr>))))"

text \<open>The transformation the iterator applies to each row.\<close>

definition transform :: "query_options \<Rightarrow> result \<Rightarrow> tile_record" where
  "transform options v =
     \<lparr>t_zoom = q_zoom options, t_idx = c_idx v,
      t_tile = (if q_getTiles options then c_tile v else None),
      t_headers = (if q_getTiles options then Some headers else None)\<rparr>"

text \<open>
  Modelled from the spec: the pull contract of the iterator (promistreamus is not
  part of the repository). A call of \<^verbatim>\<open>next()\<close> resolves to one transformed
  record (\<open>Inr (Some r)\<close>) or, when the stream has ended, to the end marker
  (\<open>Inr None\<close>); a fault of the stream is the rejection of the next call
  (\<open>Inl\<close>); on an iterator that was never initialised the call does not settle
  (the outer \<open>None\<close>).
\<close>

definition next_value ::
  "query_options \<Rightarrow> iterator \<Rightarrow> ((reason + tile_record option) \<times> iterator) option" where
  "next_value opts it =
     (case it of
        Uninitialised \<Rightarrow> None
      | Initialised [] None \<Rightarrow> Some (Inr None, it)
      | Initialised [] (Some r) \<Rightarrow> Some (Inl r, it)
      | Initialised (v # vs) e \<Rightarrow> Some (Inr (Some (transform opts v)), Initialised vs e))"

subsection \<open>Construction\<close>

text \<open>The identifier syntax \<^verbatim>\<open>/^[a-zA-Z][_a-zA-Z0-9]*$/\<close>\<close>

definition letter :: "char \<Rightarrow> bool" where
  "letter c = (let n = (of_char c :: nat) in (65 \<le> n \<and> n \<le> 90) \<or> (97 \<le> n \<and> n \<le> 122))"

definition word_char :: "char \<Rightarrow> bool" where
  "word_char c = (let n = (of_char c :: nat) in letter c \<or> n = 95 \<or> (48 \<le> n \<and> n \<le> 57))"

fun valid_identifier :: "string \<Rightarrow> bool" where
  "valid_identifier [] = False"
| "valid_identifier (c # cs) = (letter c \<and> list_all word_char cs)"

text \<open>\<^verbatim>\<open>self.queries\<close>\<close>

definition the_queries :: "(string \<times> sql) list" where
  "the_queries =
     [(''getTile'', GetTileSql), (''getTileSize'', GetTileSizeSql),
      (''set'', SetSql), (''delete'', DeleteSql)]"

definition or_default :: "'a \<Rightarrow> 'a option \<Rightarrow> 'a option" where
  "or_default d v = (case v of None \<Rightarrow> Some d | Some x \<Rightarrow> Some x)"

text \<open>
  The constructor. \<open>u\<close> is the URI string it is given, \<open>q\<close> the query part that
  \<^verbatim>\<open>core.normalizeUri\<close> parses out of it (the parser is not part of the repository),
  \<open>db\<close> the connection that \<^verbatim>\<open>postgres(clientOpts)\<close> opens.
  \<^verbatim>\<open>core.checkType\<close> requires \<^verbatim>\<open>database\<close> and fills in the defaults of
  \<^verbatim>\<open>table\<close>, \<^verbatim>\<open>minzoom\<close> and \<^verbatim>\<open>maxzoom\<close>.
\<close>

definition PostgresStore :: "string \<Rightarrow> params \<Rightarrow> conn \<Rightarrow> error + store" where
  "PostgresStore u q db =
     (let self0 = \<lparr>uri = u, params = q, batchMode = 0, batch = [], client = db,
                   queries = [], err = None\<rparr>
      in
      case database q of
        None \<Rightarrow> Inl (attachUri self0 (Error (CoreError ''database'') None))
      | Some dbname \<Rightarrow>
          (let self1 = self0\<lparr>params :=
                 q\<lparr>table := or_default ''tiles'' (table q),
                   minzoom := or_default 0 (minzoom q),
                   maxzoom := or_default 14 (maxzoom q)\<rparr>\<rparr>
           in
           if \<not> valid_identifier dbname then
             Inl (attachUri self1
               (throwError self1 ''Uri must have a valid 'database' query parameter'' []))
           else if (case table (params self1) of
                      None \<Rightarrow> False
                    | Some t \<Rightarrow> t \<noteq> [] \<and> \<not> valid_identifier t) then
             Inl (attachUri self1
               (throwError self1 ''Optional uri 'table' param must be a valid value'' []))
           else
             (let self2 = self1\<lparr>params := (params self1)\<lparr>password := None\<rparr>\<rparr>;
                  sql = (if createIfMissing q = Some True then CreateSql else ProbeSql)
              in
              case client_none (Some sql) [table_param self2, VText dbname] db of
                (Inl r, db1) \<Rightarrow> Inl (attachUri self2 (rejected r))
              | (Inr x, db1) \<Rightarrow> Inr (self2\<lparr>client := db1, queries := the_queries\<rparr>))))"

text \<open>Does the first text occur in the second?\<close>

fun starts_with :: "string \<Rightarrow> string \<Rightarrow> bool" where
  "starts_with [] s = True"
| "starts_with (c # cs) [] = False"
| "starts_with (c # cs) (d # ds) = (c = d \<and> starts_with cs ds)"

fun occurs_in :: "string \<Rightarrow> string \<Rightarrow> bool" where
  "occurs_in p [] = (p = [])"
| "occurs_in p (c # cs) = (starts_with p (c # cs) \<or> occurs_in p cs)"

subsection \<open>Callers and table invariants\<close>

text \<open>
  A caller that submits a sequence of writes (zoom, idx, payload) one after the
  other through \<^verbatim>\<open>_storeDataAsync\<close>.
\<close>

fun submits :: "store \<Rightarrow> (int \<times> int \<times> blob option) list \<Rightarrow> store" where
  "submits s [] = s"
| "submits s ((zoom, idx, data) # ws) = submits (snd (storeDataAsync s zoom idx data)) ws"

text \<open>The primary key of the table: no two rows share (zoom, idx).\<close>

definition pk :: "row list \<Rightarrow> bool" where
  "pk t = distinct (map (\<lambda>r. (r_zoom r, r_idx r)) t)"

text \<open>
  The next call on the connection is not scheduled to fail, and the store writes
  directly (\<^verbatim>\<open>!self.batchMode || !self._params.maxBatchSize\<close>).
\<close>

definition next_ok :: "conn \<Rightarrow> bool" where
  "next_ok db = (case faults db of [] \<Rightarrow> True | f # fs \<Rightarrow> \<not> f)"

definition direct :: "store \<Rightarrow> bool" where
  "direct s = (batchMode s = 0 \<or> no_maxBatchSize s)"

text \<open>The options of a range query with both index bounds and nothing else.\<close>

definition range_options :: "int \<Rightarrow> int \<Rightarrow> int \<Rightarrow> bool \<Rightarrow> query_options" where
  "range_options zoom a b tiles =
     \<lparr>q_zoom = zoom, q_idxFrom = Some a, q_idxBefore = Some b, q_dateFrom = None,
      q_dateBefore = None, q_biggerThan = None, q_smallerThan = None, q_getTiles = tiles\<rparr>"

subsection \<open>Example values\<close>

text \<open>
  A store as the constructor leaves it for the URI below, connections with and
  without a scheduled fault, and a stand-in for the coordinate encoder (row-major
  numbering of the grid of a zoom level).
\<close>

definition example_params :: params where
  "example_params =
     \<lparr>host = Some ''db.example'', port = None, database = Some ''tiles_db'',
      username = Some ''maps'', password = None, table = Some ''tiles'',
      createIfMissing = None, minzoom = Some 0, maxzoom = Some 14, maxBatchSize = None\<rparr>"

definition healthy_conn :: conn where
  "healthy_conn = \<lparr>rows = [], faults = [], calls = []\<rparr>"

definition failing_conn :: conn where
  "failing_conn = \<lparr>rows = [], faults = [True], calls = []\<rparr>"

definition example_store :: "conn \<Rightarrow> store" where
  "example_store db =
     \<lparr>uri = ''postgres://db.example/?database=tiles_db&username=maps'',
      params = example_params, batchMode = 0, batch = [], client = db,
      queries = the_queries, err = None\<rparr>"

definition stocked_conn :: conn where
  "stocked_conn =
     \<lparr>rows = [\<lparr>r_zoom = 2, r_idx = 5, r_tile = [9]\<rparr>, \<lparr>r_zoom = 2, r_idx = 6, r_tile = [4, 4]\<rparr>],
      faults = [], calls = []\<rparr>"

definition unordered_conn :: conn where
  "unordered_conn =
     \<lparr>rows = [\<lparr>r_zoom = 3, r_idx = 15, r_tile = [1, 2, 3]\<rparr>, \<lparr>r_zoom = 3, r_idx = 12, r_tile = [9]\<rparr>,
              \<lparr>r_zoom = 3, r_idx = 40, r_tile = [5]\<rparr>, \<lparr>r_zoom = 2, r_idx = 11, r_tile = [6]\<rparr>],
      faults = [], calls = []\<rparr>"

text \<open>
  A connection URI that carries a password, the query part parsed out of it, the store
  the constructor builds from them, and the options of a size-only point read.
\<close>

definition secret_uri :: string where
  "secret_uri = ''postgres://db.example/?database=tiles_db&username=maps&password=hunter2''"

definition secret_query :: params where
  "secret_query =
     \<lparr>host = Some ''db.example'', port = None, database = Some ''tiles_db'',
      username = Some ''maps'', password = Some ''hunter2'', table = None,
      createIfMissing = None, minzoom = None, maxzoom = None, maxBatchSize = None\<rparr>"

definition secret_store :: store where
  "secret_store =
     \<lparr>uri = secret_uri, params = example_params, batchMode = 0, batch = [],
      client = healthy_conn\<lparr>calls := [None_call (Some ProbeSql) [VText ''tiles'', VText ''tiles_db'']]\<rparr>,
      queries = the_queries, err = None\<rparr>"

definition size_only :: "int \<Rightarrow> int \<Rightarrow> tile_options" where
  "size_only zoom idx =
     \<lparr>o_info = False, o_zoom = zoom, o_idx = idx, o_getWriteTime = False,
      o_getTile = Some False, o_getSize = Some True\<rparr>"

definition row_major :: "int \<Rightarrow> int \<Rightarrow> int \<Rightarrow> int" where
  "row_major x y z = y * 2 ^ nat z + x"

text \<open>The example store with a maximum batch size, a nesting counter and pending entries.\<close>

definition batching_store :: "int \<Rightarrow> int \<Rightarrow> entry list \<Rightarrow> conn \<Rightarrow> store" where
  "batching_store k n b db =
     (example_store db)\<lparr>params := example_params\<lparr>maxBatchSize := Some k\<rparr>,
                         batchMode := n, batch := b\<rparr>"

definition delete_1_0 :: entry where
  "delete_1_0 = \<lparr>e_query = Some DeleteSql, e_params = [VText ''tiles'', VNum 1, VNum 0]\<rparr>"

definition nested_store :: store where
  "nested_store = batching_store 10 2 [delete_1_0] healthy_conn"

definition two_writes :: "(int \<times> int \<times> blob option) list" where
  "two_writes = [(1, 0, Some [7]), (1, 1, None)]"

section \<open>Properties\<close>

subsection \<open>Auxiliary facts about the batch buffer\<close>

lemma flush_empty: "batch s = [] \<Longrightarrow> flush s = (Inr (), s)"
  by (simp add: flush_def)

lemma flush_nonempty: "batch s \<noteq> [] \<Longrightarrow> flush s = (Inl (Error TypeError None), s\<lparr>batch := []\<rparr>)"
  by (simp add: flush_def)

lemma flush_Inl:
  "flush s = (Inl e, s1) \<Longrightarrow> batch s \<noteq> [] \<and> e = Error TypeError None \<and> s1 = s\<lparr>batch := []\<rparr>"
  by (cases "batch s = []") (auto simp: flush_empty flush_nonempty)

lemma begin_call_rows: "rows (snd (begin_call c db)) = rows db"
  by (simp add: begin_call_def split: list.splits)

subsection \<open>Auxiliary facts about the table and point reads\<close>

lemma keyed_of_int [simp]:
  "keyed (of_int z) (of_int i) = (\<lambda>r. r_zoom r = z \<and> r_idx r = i)"
  by (rule ext) (simp add: keyed_def)

lemma num_arg_2 [simp]: "num_arg (a # VNum v # ps) 2 = Some v"
  by (simp add: num_arg_def arg_def)

lemma num_arg_3 [simp]: "num_arg (a # b # VNum v # ps) 3 = Some v"
  by (simp add: num_arg_def arg_def)

lemma arg_4 [simp]: "arg (a # b # c # v # ps) 4 = Some v"
  by (simp add: arg_def)

lemma is_integer_of_int [simp]: "is_integer (of_int z)"
  by (simp add: is_integer_def)

lemma update_lookup:
  "pk t \<Longrightarrow>
   filter (\<lambda>r. r_zoom r = z \<and> r_idx r = i)
     (map (\<lambda>r. if r_zoom r = z \<and> r_idx r = i then r\<lparr>r_tile := d\<rparr> else r) t)
   = (if (z, i) \<in> set (map (\<lambda>r. (r_zoom r, r_idx r)) t)
      then [\<lparr>r_zoom = z, r_idx = i, r_tile = d\<rparr>] else [])"
proof (induction t)
  case Nil
  then show ?case by simp
next
  case (Cons r t)
  then have pkt: "pk t" and fresh: "(r_zoom r, r_idx r) \<notin> set (map (\<lambda>r. (r_zoom r, r_idx r)) t)"
    by (simp_all add: pk_def)
  show ?case
  proof (cases "r_zoom r = z \<and> r_idx r = i")
    case True
    with fresh have "(z, i) \<notin> set (map (\<lambda>r. (r_zoom r, r_idx r)) t)" by simp
    with Cons.IH [OF pkt] True show ?thesis by (cases r) simp
  next
    case False
    with Cons.IH [OF pkt] show ?thesis by auto
  qed
qed

lemma list_ex_update:
  "list_ex (\<lambda>r. r_zoom r = z \<and> r_idx r = i)
     (map (\<lambda>r. if r_zoom r = z \<and> r_idx r = i then r\<lparr>r_tile := d\<rparr> else r) t)
   \<longleftrightarrow> (z, i) \<in> set (map (\<lambda>r. (r_zoom r, r_idx r)) t)"
  by (induction t) auto

lemma exec_Set_eq:
  "exec SetSql [tp, VNum (of_int z), VNum (of_int i), VBytes d] t =
     Some ((let t1 = map (\<lambda>r. if r_zoom r = z \<and> r_idx r = i then r\<lparr>r_tile := d\<rparr> else r) t in
            if (z, i) \<in> set (map (\<lambda>r. (r_zoom r, r_idx r)) t) then t1
            else t1 @ [\<lparr>r_zoom = z, r_idx = i, r_tile = d\<rparr>]), [])"
  by (simp add: Let_def list_ex_update del: set_map)

lemma exec_Set:
  assumes "pk t"
    and "exec SetSql [tp, VNum (of_int z), VNum (of_int i), VBytes d] t = Some (t1, rs)"
  shows "filter (\<lambda>r. r_zoom r = z \<and> r_idx r = i) t1 = [\<lparr>r_zoom = z, r_idx = i, r_tile = d\<rparr>]"
proof -
  let ?u = "map (\<lambda>r. if r_zoom r = z \<and> r_idx r = i then r\<lparr>r_tile := d\<rparr> else r) t"
  show ?thesis
  proof (cases "(z, i) \<in> set (map (\<lambda>r. (r_zoom r, r_idx r)) t)")
    case True
    with assms(2) [unfolded exec_Set_eq Let_def] have "t1 = ?u" by (simp del: set_map)
    with update_lookup [OF assms(1), of z i d] True show ?thesis by (simp del: set_map)
  next
    case False
    with assms(2) [unfolded exec_Set_eq Let_def]
    have "t1 = ?u @ [\<lparr>r_zoom = z, r_idx = i, r_tile = d\<rparr>]"
      by (simp del: set_map)
    with update_lookup [OF assms(1), of z i d] False show ?thesis by (simp del: set_map)
  qed
qed


lemma map_of_the_queries [simp]:
  "map_of the_queries ''set'' = Some SetSql"
  "map_of the_queries ''delete'' = Some DeleteSql"
  "map_of the_queries ''getTile'' = Some GetTileSql"
  "map_of the_queries ''getSize'' = None"
  by (simp_all add: the_queries_def)

lemma store_entry_set:
  "queries s = the_queries \<Longrightarrow> d \<noteq> [] \<Longrightarrow>
   store_entry s z i (Some d) =
     \<lparr>e_query = Some SetSql,
      e_params = [table_param s, VNum (of_int z), VNum (of_int i), VBytes d]\<rparr>"
  by (simp add: store_entry_def)

lemma store_entry_delete:
  "queries s = the_queries \<Longrightarrow> data = None \<or> data = Some [] \<Longrightarrow>
   store_entry s z i data =
     \<lparr>e_query = Some DeleteSql, e_params = [table_param s, VNum (of_int z), VNum (of_int i)]\<rparr>"
  by (auto simp: store_entry_def)

lemma client_none_Inr:
  "client_none q ps db = (Inr u, db1) \<Longrightarrow> \<exists>rs. run q ps (rows db) = Some (rows db1, rs)"
  using begin_call_rows [of "None_call q ps" db]
  by (auto simp: client_none_def split: prod.splits option.splits if_splits)

lemma write_applied:
  assumes put: "storeDataAsync s zoom idx data = (Inr (), s1)"
    and app: "direct s \<and> s2 = s1 \<or> \<not> direct s \<and> flush s1 = (Inr (), s2)"
  shows "\<exists>rs. run (e_query (store_entry s zoom idx data)) (e_params (store_entry s zoom idx data))
                 (rows (client s)) = Some (rows (client s2), rs)"
    and "params s2 = params s" and "queries s2 = queries s"
proof -
  let ?e = "store_entry s zoom idx data"
  let ?sb = "s\<lparr>batch := batch s @ [?e]\<rparr>"
  have ne: "batch ?sb \<noteq> []" by simp
  have d: "direct s"
  proof (rule ccontr)
    assume n: "\<not> direct s"
    with app have fl: "flush s1 = (Inr (), s2)" by simp
    show False
    proof (cases "js_gt (int (length (batch ?sb))) (maxBatchSize (params ?sb))")
      case True
      with put n flush_nonempty [OF ne] show False
        by (simp add: storeDataAsync_def direct_def Let_def)
    next
      case False
      with put n have "s1 = ?sb" by (auto simp: storeDataAsync_def direct_def Let_def)
      with fl flush_nonempty [OF ne] show False by simp
    qed
  qed
  with app have s2: "s2 = s1" by blast
  obtain x db where c: "client_none (e_query ?e) (e_params ?e) (client s) = (x, db)"
    by fastforce
  with put d have "x = Inr ()" and s1: "s1 = s\<lparr>client := db\<rparr>"
    by (cases x; auto simp: storeDataAsync_def direct_def Let_def)+
  with c client_none_Inr [of "e_query ?e" "e_params ?e" "client s" "()" db] s2
  show "\<exists>rs. run (e_query ?e) (e_params ?e) (rows (client s)) = Some (rows (client s2), rs)"
    by auto
  from s1 s2 show "params s2 = params s" and "queries s2 = queries s" by simp_all
qed

lemma begin_call_ok: "next_ok db \<Longrightarrow> fst (begin_call c db) = False"
  by (simp add: begin_call_def next_ok_def split: list.splits)

lemma oneOrNone_GetTile:
  assumes "next_ok db"
  shows "fst (oneOrNone (Some GetTileSql) [tp, VNum (of_int z), VNum (of_int i)] db) =
     (case filter (\<lambda>r. r_zoom r = z \<and> r_idx r = i) (rows db) of
        [] \<Rightarrow> Inr None
      | [r] \<Rightarrow> Inr (Some (tile_column r))
      | _ \<Rightarrow> Inl ResultError)"
proof -
  obtain f db1 where b: "begin_call (OneOrNone_call (Some GetTileSql) [tp, VNum (of_int z), VNum (of_int i)]) db = (f, db1)"
    by fastforce
  with begin_call_ok [OF assms] have f: "f = False" by (metis fst_conv)
  from b begin_call_rows have r: "rows db1 = rows db" by (metis snd_conv)
  show ?thesis
    unfolding oneOrNone_def b
    by (simp add: f r run_def split: list.splits)
qed

lemma queryTileAsync_point:
  assumes "queries s = the_queries" and "next_ok (client s)"
    and "0 \<le> i" and "of_int i < Math_pow4 z"
  shows "fst (queryTileAsync s \<lparr>o_info = False, o_zoom = z, o_idx = i, o_getWriteTime = False,
                 o_getTile = None, o_getSize = None\<rparr>) =
     (case filter (\<lambda>r. r_zoom r = z \<and> r_idx r = i) (rows (client s)) of
        [] \<Rightarrow> Inr None
      | [r] \<Rightarrow> Inr (Some \<lparr>resp_tile = Some (r_tile r), resp_size = None\<rparr>)
      | _ \<Rightarrow> Inl (Error (Rejected ResultError) (Some (params s))))"
proof -
  let ?ps = "[table_param s, VNum (of_int z), VNum (of_int i)]"
  obtain x db where o: "oneOrNone (Some GetTileSql) ?ps (client s) = (x, db)" by fastforce
  with oneOrNone_GetTile [OF assms(2), of "table_param s" z i]
  have x: "x = (case filter (\<lambda>r. r_zoom r = z \<and> r_idx r = i) (rows (client s)) of
        [] \<Rightarrow> Inr None
      | [r] \<Rightarrow> Inr (Some (tile_column r))
      | _ \<Rightarrow> Inl ResultError)" by simp
  have "fst (queryTileAsync s \<lparr>o_info = False, o_zoom = z, o_idx = i, o_getWriteTime = False,
                 o_getTile = None, o_getSize = None\<rparr>) =
        (case x of Inl r \<Rightarrow> Inl (attachUri s (rejected r))
         | Inr None \<Rightarrow> Inr None
         | Inr (Some row) \<Rightarrow> Inr (Some \<lparr>resp_tile = c_tile row, resp_size = None\<rparr>))"
    using assms(1,3,4) o
    by (simp add: queryTileAsync_def Let_def split: sum.splits option.splits)
  then show ?thesis unfolding x
    by (simp add: tile_column_def attachUri_def rejected_def split: list.splits)
qed

lemma getTile_point:
  assumes "queries s = the_queries" and "next_ok (client s)"
    and "minzoom (params s) = Some lo" and "maxzoom (params s) = Some hi"
    and "lo \<le> z" and "z \<le> hi"
    and "0 \<le> xyToIndex x y z" and "of_int (xyToIndex x y z) < Math_pow4 z"
  shows "fst (getTile xyToIndex s z x y) =
     (case filter (\<lambda>r. r_zoom r = z \<and> r_idx r = xyToIndex x y z) (rows (client s)) of
        [] \<Rightarrow> Inl (Error NoTile (Some (params s)))
      | [r] \<Rightarrow> Inr (Some (r_tile r), headers)
      | _ \<Rightarrow> Inl (Error (Rejected ResultError) (Some (params s))))"
proof -
  let ?o = "\<lparr>o_info = False, o_zoom = z, o_idx = xyToIndex x y z, o_getWriteTime = False,
                 o_getTile = None, o_getSize = None\<rparr>"
  obtain q s1 where q: "queryTileAsync s ?o = (q, s1)" by fastforce
  have p: "params s1 = params s"
    using q by (auto simp: queryTileAsync_def Let_def split: if_splits prod.splits sum.splits option.splits)
  have w: "\<not> (js_lt z (minzoom (params s)) \<or> js_gt z (maxzoom (params s)))"
    using assms(3-6) by (simp add: js_lt_def js_gt_def)
  have "fst (getTile xyToIndex s z x y) =
      (case q of Inl e \<Rightarrow> Inl (attachUri s1 e)
       | Inr None \<Rightarrow> Inl (attachUri s1 throwNoTile)
       | Inr (Some row) \<Rightarrow> Inr (resp_tile row, headers))"
    unfolding getTile_def using w q by (simp split: sum.splits option.splits)
  moreover have "q = (case filter (\<lambda>r. r_zoom r = z \<and> r_idx r = xyToIndex x y z) (rows (client s)) of
        [] \<Rightarrow> Inr None
      | [r] \<Rightarrow> Inr (Some \<lparr>resp_tile = Some (r_tile r), resp_size = None\<rparr>)
      | _ \<Rightarrow> Inl (Error (Rejected ResultError) (Some (params s))))"
    using queryTileAsync_point [OF assms(1,2,7,8)] q by simp
  ultimately show ?thesis
    by (simp add: attachUri_def throwNoTile_def p split: list.splits)
qed


lemma client_none_ok:
  assumes "next_ok db" and "run q ps (rows db) = Some (t, [])"
  shows "fst (client_none q ps db) = Inr ()"
proof -
  obtain f db1 where b: "begin_call (None_call q ps) db = (f, db1)" by fastforce
  with begin_call_ok [OF assms(1)] have f: "f = False" by (metis fst_conv)
  from b begin_call_rows have r: "rows db1 = rows db" by (metis snd_conv)
  show ?thesis unfolding client_none_def b by (simp add: f r assms(2))
qed

lemma storeDataAsync_direct_ok:
  assumes "queries s = the_queries" and "direct s" and "next_ok (client s)"
  shows "fst (storeDataAsync s zoom idx data) = Inr ()"
proof -
  let ?e = "store_entry s zoom idx data"
  have "\<exists>t. run (e_query ?e) (e_params ?e) (rows (client s)) = Some (t, [])"
  proof (cases "data = None \<or> data = Some []")
    case True
    then show ?thesis
      using store_entry_delete [OF assms(1) True, of zoom idx] by (simp add: run_def)
  next
    case False
    then obtain d where d: "data = Some d" "d \<noteq> []" by auto
    show ?thesis
      using store_entry_set [OF assms(1) d(2), of zoom idx] d(1)
      by (simp add: run_def exec_Set_eq del: exec.simps)
  qed
  then obtain t where "run (e_query ?e) (e_params ?e) (rows (client s)) = Some (t, [])" ..
  from client_none_ok [OF assms(3) this]
  have c: "fst (client_none (e_query ?e) (e_params ?e) (client s)) = Inr ()" .
  obtain x db where x: "client_none (e_query ?e) (e_params ?e) (client s) = (x, db)"
    by fastforce
  with c have "x = Inr ()" by simp
  with x assms(2) show ?thesis
    by (simp add: storeDataAsync_def direct_def Let_def)
qed

text \<open>
  The table of the example connection \<open>unordered_conn\<close> is what four direct writes
  leave behind on an empty table: the upsert appends each new row.
\<close>

lemma unordered_rows_written:
  "rows (client (submits (example_store healthy_conn)
      [(3, 15, Some [1, 2, 3]), (3, 12, Some [9]), (3, 40, Some [5]), (2, 11, Some [6])])) =
   rows unordered_conn"
  by code_simp

subsection \<open>Reads outside the zoom window\<close>

text \<open>
  C9. For every zoom outside the configured window [minzoom, maxzoom] and every
  (x, y), \<^verbatim>\<open>getTile\<close> fails with the not-found error of \<^verbatim>\<open>core.throwNoTile\<close>,
  never with a rejection of the client, and before any I/O: the store and its
  connection (table, fault schedule, call log) are exactly as before, whatever the
  connection would have done.
\<close>

theorem getTile_outside_window:
  assumes "minzoom (params s) = Some lo" and "maxzoom (params s) = Some hi"
    and "z < lo \<or> hi < z"
  shows "getTile xyToIndex s z x y = (Inl (Error NoTile (Some (params s))), s)"
  using assms by (auto simp: getTile_def js_lt_def js_gt_def attachUri_def throwNoTile_def)

theorem getTile_outside_window_witness:
  "minzoom (params (example_store failing_conn)) = Some 0
   \<and> maxzoom (params (example_store failing_conn)) = Some 14
   \<and> ((15::int) < 0 \<or> (14::int) < 15)
   \<and> getTile row_major (example_store failing_conn) 15 3 4 =
       (Inl (Error NoTile (Some example_params)), example_store failing_conn)
   \<and> calls (client (snd (getTile row_major (example_store failing_conn) 15 3 4))) = []"
proof -
  have a: "minzoom (params (example_store failing_conn)) = Some 0"
    by (simp add: example_store_def example_params_def)
  have b: "maxzoom (params (example_store failing_conn)) = Some 14"
    by (simp add: example_store_def example_params_def)
  have c: "(15::int) < 0 \<or> (14::int) < 15" by simp
  have d: "params (example_store failing_conn) = example_params"
    by (simp add: example_store_def)
  have e: "calls (client (example_store failing_conn)) = []"
    by (simp add: example_store_def failing_conn_def)
  show ?thesis
    using getTile_outside_window [OF a b c, of row_major 3 4] a b d e by simp
qed


subsection \<open>The batch buffer\<close>

text \<open>
  C2, as the code has it. When the nesting counter is 0, \<^verbatim>\<open>stopWriting\<close> fails
  with the error "stopWriting() called more times than startWriting()" and leaves the
  store unchanged. When the counter is positive, it decrements the counter and then
  runs the flush step at every call, whatever the new value of the counter: the
  pending sequence is detached and is empty afterwards; with nothing pending the call
  succeeds and changes nothing but the counter.
\<close>

theorem stopWriting_always_flushes:
  "(batchMode s = 0 \<longrightarrow>
      stopWriting s =
        (Inl (Error (Thrown ''stopWriting() called more times than startWriting()'' []
                (JSON_stringify (uri s))) (Some (params s))), s))
   \<and> (0 < batchMode s \<longrightarrow>
        batchMode (snd (stopWriting s)) = batchMode s - 1
        \<and> batch (snd (stopWriting s)) = []
        \<and> (batch s = [] \<longrightarrow> stopWriting s = (Inr (), s\<lparr>batchMode := batchMode s - 1\<rparr>)))"
proof (intro conjI impI)
  assume "batchMode s = 0"
  then show "stopWriting s =
        (Inl (Error (Thrown ''stopWriting() called more times than startWriting()'' []
                (JSON_stringify (uri s))) (Some (params s))), s)"
    by (simp add: stopWriting_def attachUri_def throwError_def)
next
  assume pos: "0 < batchMode s"
  let ?s1 = "s\<lparr>batchMode := batchMode s - 1\<rparr>"
  show "batchMode (snd (stopWriting s)) = batchMode s - 1"
    using pos flush_empty [of ?s1] flush_nonempty [of ?s1]
    by (cases "batch s = []") (simp_all add: stopWriting_def Let_def)
  show "batch (snd (stopWriting s)) = []"
    using pos flush_empty [of ?s1] flush_nonempty [of ?s1]
    by (cases "batch s = []") (simp_all add: stopWriting_def Let_def)
next
  assume "0 < batchMode s" and "batch s = []"
  then show "stopWriting s = (Inr (), s\<lparr>batchMode := batchMode s - 1\<rparr>)"
    using flush_empty [of "s\<lparr>batchMode := batchMode s - 1\<rparr>"]
    by (simp add: stopWriting_def Let_def)
qed

theorem stopWriting_always_flushes_witness:
  "batchMode (example_store healthy_conn) = 0
   \<and> stopWriting (example_store healthy_conn) =
        (Inl (Error (Thrown ''stopWriting() called more times than startWriting()'' []
                (JSON_stringify (uri (example_store healthy_conn)))) (Some example_params)),
         example_store healthy_conn)
   \<and> 0 < batchMode nested_store
   \<and> batchMode (snd (stopWriting nested_store)) = 1
   \<and> batch (snd (stopWriting nested_store)) = []
   \<and> 0 < batchMode (batching_store 10 2 [] healthy_conn)
   \<and> batch (batching_store 10 2 [] healthy_conn) = []
   \<and> stopWriting (batching_store 10 2 [] healthy_conn) =
        (Inr (), batching_store 10 1 [] healthy_conn)"
proof -
  have a: "batchMode (example_store healthy_conn) = 0" by (simp add: example_store_def)
  have p: "params (example_store healthy_conn) = example_params" by (simp add: example_store_def)
  have b: "0 < batchMode nested_store" "batchMode nested_store = 2"
    by (simp_all add: nested_store_def batching_store_def)
  have c: "0 < batchMode (batching_store 10 2 [] healthy_conn)"
    "batchMode (batching_store 10 2 [] healthy_conn) = 2"
    "batch (batching_store 10 2 [] healthy_conn) = []"
    by (simp_all add: batching_store_def)
  have d: "(batching_store 10 2 [] healthy_conn)\<lparr>batchMode := 2 - 1\<rparr> =
           batching_store 10 1 [] healthy_conn"
    by (simp add: batching_store_def)
  show ?thesis
    using stopWriting_always_flushes [of "example_store healthy_conn"]
      stopWriting_always_flushes [of nested_store]
      stopWriting_always_flushes [of "batching_store 10 2 [] healthy_conn"] a p b c d
    by simp
qed

text \<open>
  The specification's sentence (a flush only when the counter goes from 1 to 0) does
  not hold of the code: with the counter at 2 and one pending entry,
  \<^verbatim>\<open>stopWriting\<close> leaves the counter at 1 and yet runs the flush step, which
  detaches the pending entry and fails.
\<close>

theorem stopWriting_flush_above_zero:
  "batchMode nested_store = 2
   \<and> batch nested_store = [delete_1_0]
   \<and> batchMode (snd (stopWriting nested_store)) = 1
   \<and> batch (snd (stopWriting nested_store)) = []
   \<and> fst (stopWriting nested_store) = Inl (Error TypeError (Some (params nested_store)))"
  by (simp add: nested_store_def batching_store_def example_store_def stopWriting_def
      flush_def attachUri_def Let_def)

text \<open>
  C10. For every positive nesting counter, if the flush that \<^verbatim>\<open>stopWriting\<close> runs
  after the decrement fails (in this code: with the TypeError of the missing client
  method), then \<^verbatim>\<open>stopWriting\<close> fails with the same error (with
  \<^verbatim>\<open>moduleUri\<close> attached), the counter nevertheless stays decremented, and the
  detached pending entries are not put back: the pending sequence, which was not
  empty, is empty; the connection is untouched.
\<close>

theorem stopWriting_failed_flush:
  assumes "0 < batchMode s"
    and "flush (s\<lparr>batchMode := batchMode s - 1\<rparr>) = (Inl e, s1)"
  shows "stopWriting s = (Inl (Error (failure e) (Some (params s))), s1)
         \<and> failure e = TypeError
         \<and> batchMode s1 = batchMode s - 1 \<and> batch s1 = [] \<and> batch s \<noteq> []
         \<and> client s1 = client s"
proof -
  from flush_Inl [OF assms(2)]
  have ne: "batch s \<noteq> []" and s1: "s1 = s\<lparr>batchMode := batchMode s - 1, batch := []\<rparr>"
    and e: "e = Error TypeError None"
    by simp_all
  have "stopWriting s = (Inl (attachUri s1 e), s1)"
    using assms by (simp add: stopWriting_def Let_def)
  then show ?thesis using ne s1 e by (simp add: attachUri_def)
qed

theorem stopWriting_failed_flush_witness:
  "0 < batchMode (batching_store 10 1 [delete_1_0] healthy_conn)
   \<and> flush ((batching_store 10 1 [delete_1_0] healthy_conn)\<lparr>batchMode := 1 - 1\<rparr>) =
       (Inl (Error TypeError None), batching_store 10 0 [] healthy_conn)
   \<and> stopWriting (batching_store 10 1 [delete_1_0] healthy_conn) =
       (Inl (Error TypeError (Some (example_params\<lparr>maxBatchSize := Some 10\<rparr>))),
        batching_store 10 0 [] healthy_conn)
   \<and> batchMode (batching_store 10 0 [] healthy_conn) = 0
   \<and> batch (batching_store 10 0 [] healthy_conn) = []"
proof -
  let ?s = "batching_store 10 1 [delete_1_0] healthy_conn"
  have a: "0 < batchMode ?s" "batchMode ?s = 1" by (simp_all add: batching_store_def)
  have f: "flush (?s\<lparr>batchMode := batchMode ?s - 1\<rparr>) =
       (Inl (Error TypeError None), batching_store 10 0 [] healthy_conn)"
    by (simp add: batching_store_def flush_def)
  have p: "params ?s = example_params\<lparr>maxBatchSize := Some 10\<rparr>"
    by (simp add: batching_store_def)
  have b: "batchMode (batching_store 10 0 [] healthy_conn) = 0"
    "batch (batching_store 10 0 [] healthy_conn) = []"
    by (simp_all add: batching_store_def)
  show ?thesis using stopWriting_failed_flush [OF a(1) f] a f p b by simp
qed

text \<open>
  C7. The specification states that with a maximum batch size K the (K+1)th
  submission triggers one automatic flush that submits the pending sequence, and that
  an explicit flush submits the entire pending sequence with no entry lost. With
  K = 2 and the counter at 1, two submissions leave their two entries pending and make
  no call to the client; the third runs the flush step, which detaches the three
  entries and fails before any call to the client: the store is back in its initial
  state, the table is untouched and the three writes are lost. An explicit flush after
  the first submission loses that entry in the same way.
\<close>

theorem batch_flush_loses_entries:
  "batch (submits (batching_store 2 1 [] healthy_conn) two_writes) =
     [\<lparr>e_query = Some SetSql, e_params = [VText ''tiles'', VNum 1, VNum 0, VBytes [7]]\<rparr>,
      \<lparr>e_query = Some DeleteSql, e_params = [VText ''tiles'', VNum 1, VNum 1]\<rparr>]
   \<and> calls (client (submits (batching_store 2 1 [] healthy_conn) two_writes)) = []
   \<and> storeDataAsync (submits (batching_store 2 1 [] healthy_conn) two_writes) 1 2 (Some [8]) =
       (Inl (Error TypeError (Some (example_params\<lparr>maxBatchSize := Some 2\<rparr>))),
        batching_store 2 1 [] healthy_conn)
   \<and> batch (submits (batching_store 2 1 [] healthy_conn) (take 1 two_writes)) =
       [\<lparr>e_query = Some SetSql, e_params = [VText ''tiles'', VNum 1, VNum 0, VBytes [7]]\<rparr>]
   \<and> flush (submits (batching_store 2 1 [] healthy_conn) (take 1 two_writes)) =
       (Inl (Error TypeError None), batching_store 2 1 [] healthy_conn)
   \<and> rows (client (batching_store 2 1 [] healthy_conn)) = []
   \<and> calls (client (batching_store 2 1 [] healthy_conn)) = []"
  by (simp add: two_writes_def batching_store_def example_store_def example_params_def
      healthy_conn_def storeDataAsync_def store_entry_def table_param_def no_maxBatchSize_def
      js_gt_def flush_def attachUri_def Let_def)

subsection \<open>Writes followed by reads\<close>

text \<open>
  C1. For every zoom z in the window, every coordinate whose index lies in
  [0, 4^z), and every non-empty payload d, on a table that respects its primary key:
  in direct mode on a working connection \<^verbatim>\<open>putTile\<close> succeeds; and whenever
  \<^verbatim>\<open>putTile\<close> has succeeded and the write is applied (direct mode, or buffering
  mode followed by a successful flush), a \<^verbatim>\<open>getTile\<close> of the same address on a
  working connection returns exactly d, with the fixed headers.
\<close>

theorem putTile_getTile_roundtrip:
  assumes "queries s = the_queries"
    and "minzoom (params s) = Some lo" and "maxzoom (params s) = Some hi"
    and "lo \<le> z" and "z \<le> hi"
    and "0 \<le> xyToIndex x y z" and "of_int (xyToIndex x y z) < Math_pow4 z"
    and "d \<noteq> []"
    and "pk (rows (client s))"
  shows "(direct s \<and> next_ok (client s) \<longrightarrow> fst (putTile xyToIndex s z x y (Some d)) = Inr ())
       \<and> (\<forall>s1 s2. putTile xyToIndex s z x y (Some d) = (Inr (), s1)
             \<and> (direct s \<and> s2 = s1 \<or> \<not> direct s \<and> flush s1 = (Inr (), s2))
             \<and> next_ok (client s2)
             \<longrightarrow> fst (getTile xyToIndex s2 z x y) = Inr (Some d, headers))"
proof (intro conjI impI allI)
  have w: "\<not> (js_lt z (minzoom (params s)) \<or> js_gt z (maxzoom (params s)))"
    using assms(2-5) by (simp add: js_lt_def js_gt_def)
  then have put: "putTile xyToIndex s z x y (Some d) = storeDataAsync s z (xyToIndex x y z) (Some d)"
    by (simp add: putTile_def)
  {
    assume "direct s \<and> next_ok (client s)"
    then show "fst (putTile xyToIndex s z x y (Some d)) = Inr ()"
      using storeDataAsync_direct_ok [OF assms(1)] put by simp
  }
  fix s1 s2
  assume h: "putTile xyToIndex s z x y (Some d) = (Inr (), s1)
             \<and> (direct s \<and> s2 = s1 \<or> \<not> direct s \<and> flush s1 = (Inr (), s2))
             \<and> next_ok (client s2)"
  let ?i = "xyToIndex x y z"
  from h put have st: "storeDataAsync s z ?i (Some d) = (Inr (), s1)" by simp
  from h have app: "direct s \<and> s2 = s1 \<or> \<not> direct s \<and> flush s1 = (Inr (), s2)" by simp
  note wa = write_applied [OF st app]
  from wa(1) obtain rs where
    r: "run (e_query (store_entry s z ?i (Some d))) (e_params (store_entry s z ?i (Some d)))
          (rows (client s)) = Some (rows (client s2), rs)"
    by blast
  from r have "exec SetSql [table_param s, VNum (of_int z), VNum (of_int ?i), VBytes d]
                 (rows (client s)) = Some (rows (client s2), rs)"
    using store_entry_set [OF assms(1,8), of z ?i] by (simp add: run_def del: exec.simps)
  from exec_Set [OF assms(9) this]
  have look: "filter (\<lambda>r. r_zoom r = z \<and> r_idx r = ?i) (rows (client s2))
                = [\<lparr>r_zoom = z, r_idx = ?i, r_tile = d\<rparr>]" .
  have q: "queries s2 = the_queries" using wa(3) assms(1) by simp
  have ok: "next_ok (client s2)" using h by simp
  have lo: "minzoom (params s2) = Some lo" and hi: "maxzoom (params s2) = Some hi"
    using wa(2) assms(2,3) by simp_all
  show "fst (getTile xyToIndex s2 z x y) = Inr (Some d, headers)"
    using getTile_point [where xyToIndex = xyToIndex and x = x and y = y, OF q ok lo hi assms(4-7)]
      look by simp
qed

theorem putTile_getTile_roundtrip_witness:
  "queries (example_store healthy_conn) = the_queries
   \<and> minzoom (params (example_store healthy_conn)) = Some 0
   \<and> maxzoom (params (example_store healthy_conn)) = Some 14
   \<and> 0 \<le> row_major 1 1 2 \<and> of_int (row_major 1 1 2) < Math_pow4 2
   \<and> pk (rows (client (example_store healthy_conn)))
   \<and> direct (example_store healthy_conn)
   \<and> next_ok (client (example_store healthy_conn))
   \<and> fst (putTile row_major (example_store healthy_conn) 2 1 1 (Some [1, 2, 3])) = Inr ()
   \<and> next_ok (client (snd (putTile row_major (example_store healthy_conn) 2 1 1 (Some [1, 2, 3]))))
   \<and> fst (getTile row_major
        (snd (putTile row_major (example_store healthy_conn) 2 1 1 (Some [1, 2, 3]))) 2 1 1) =
       Inr (Some [1, 2, 3], headers)"
proof -
  let ?s = "example_store healthy_conn"
  let ?p = "putTile row_major ?s 2 1 1 (Some [1, 2, 3])"
  have a: "queries ?s = the_queries" by (simp add: example_store_def)
  have b: "minzoom (params ?s) = Some 0" "maxzoom (params ?s) = Some 14"
    by (simp_all add: example_store_def example_params_def)
  have c: "(0::int) \<le> 2" "(2::int) \<le> 14" by simp_all
  have i: "0 \<le> row_major 1 1 2" "of_int (row_major 1 1 2) < Math_pow4 2"
    by (simp_all add: row_major_def Math_pow4_def)
  have d: "[1, 2, 3] \<noteq> ([] :: blob)" by simp
  have k: "pk (rows (client ?s))" by (simp add: example_store_def healthy_conn_def pk_def)
  have m: "direct ?s" by (simp add: direct_def example_store_def)
  have n: "next_ok (client ?s)" by (simp add: next_ok_def example_store_def healthy_conn_def)
  note t = putTile_getTile_roundtrip
    [where xyToIndex = row_major and x = 1 and y = 1 and z = 2, OF a b c i d k]
  from t m n have put: "fst ?p = Inr ()" by blast
  then have pe: "?p = (Inr (), snd ?p)" by (metis prod.collapse)
  have f: "faults (client (snd ?p)) = []"
    by (simp add: putTile_def storeDataAsync_def js_lt_def js_gt_def example_store_def
        example_params_def healthy_conn_def client_none_def begin_call_def Let_def
        no_maxBatchSize_def split: prod.splits option.splits sum.splits)
  then have o: "next_ok (client (snd ?p))" by (simp add: next_ok_def)
  from t pe m o have g: "fst (getTile row_major (snd ?p) 2 1 1) = Inr (Some [1, 2, 3], headers)"
    by blast
  from a b i k m n put o g show ?thesis by simp
qed







subsection \<open>Range queries\<close>

text \<open>
  C6. The specification states that a range query yields exactly the stored records
  with idx in [a, b), in ascending order. The code hands the statement text with
  pg-promise's name placeholder \<^verbatim>\<open>$1~\<close> to a QueryStream, to which that formatting
  is not applied: on a table that holds idx 15 and idx 12 at zoom 3, the query for
  [10, 20) builds the statement below, the server rejects it, the rejection is kept
  in \<^verbatim>\<open>self.err\<close>, and the first \<^verbatim>\<open>next()\<close> of the returned sequence is
  rejected: no record is delivered. The statement has no ORDER BY clause either, and
  for idxBefore = 0 it has no upper bound on idx at all.
\<close>

theorem query_delivers_nothing:
  "filter (\<lambda>r. r_zoom r = 3 \<and> 10 \<le> r_idx r \<and> r_idx r < 20)
       (rows (client (example_store unordered_conn))) =
     [\<lparr>r_zoom = 3, r_idx = 15, r_tile = [1, 2, 3]\<rparr>, \<lparr>r_zoom = 3, r_idx = 12, r_tile = [9]\<rparr>]
   \<and> fst (query (example_store unordered_conn) (range_options 3 10 20 False)) =
       Inr (Initialised [] (Some QueryError))
   \<and> calls (client (snd (query (example_store unordered_conn) (range_options 3 10 20 False)))) =
       [Stream_call (QueryStream False [ZoomEq 2, IdxGe 3, IdxLt 4]
          [VText ''tiles'', VNum 3, VNum 10, VNum 20])]
   \<and> err (snd (query (example_store unordered_conn) (range_options 3 10 20 False))) =
       Some QueryError
   \<and> next_value (range_options 3 10 20 False) (Initialised [] (Some QueryError)) =
       Some (Inl QueryError, Initialised [] (Some QueryError))
   \<and> calls (client (snd (query (example_store unordered_conn) (range_options 3 0 0 False)))) =
       [Stream_call (QueryStream False [ZoomEq 2] [VText ''tiles'', VNum 3])]"
  by (simp add: example_store_def unordered_conn_def example_params_def range_options_def
      query_def Math_pow4_def scan_of_def truthy_def push_def table_param_def stream_def
      begin_call_def next_value_def Let_def)

subsection \<open>Error context and size-only reads\<close>

text \<open>
  C4. The specification states that no error message or attached context ever contains the
  configured password. The code deletes the password from \<^verbatim>\<open>self._params\<close>, but
  \<^verbatim>\<open>throwError\<close> appends \<^verbatim>\<open>JSON.stringify(uri)\<close>, the constructor's own argument:
  for a store built from a URI string with a password, the error of a \<^verbatim>\<open>putTile\<close>
  outside the zoom window carries the password in its message. An error raised in the
  constructor before the deletion (here an invalid database name) gets the password
  in its attached \<^verbatim>\<open>moduleUri\<close> as well.
\<close>

theorem password_in_error_message:
  "PostgresStore secret_uri secret_query healthy_conn = Inr secret_store
   \<and> password (params secret_store) = None
   \<and> fst (putTile row_major secret_store 20 0 0 (Some [1])) =
       Inl (Error (Thrown
         ''This PostgresStore source cannot save zoom %d, because its configured for zooms %d..%d''
         [D 20, D 0, D 14] (JSON_stringify secret_uri)) None)
   \<and> occurs_in ''hunter2'' (JSON_stringify secret_uri)
   \<and> (case PostgresStore secret_uri (secret_query\<lparr>database := Some ''9tiles''\<rparr>) healthy_conn of
        Inl e \<Rightarrow> map_option password (moduleUri e) = Some (Some ''hunter2'')
      | Inr s \<Rightarrow> False)"
proof (intro conjI)
  show "PostgresStore secret_uri secret_query healthy_conn = Inr secret_store"
    by (simp add: PostgresStore_def secret_query_def secret_store_def healthy_conn_def
        example_params_def or_default_def letter_def word_char_def table_param_def
        client_none_def begin_call_def run_def Let_def)
  show "password (params secret_store) = None"
    by (simp add: secret_store_def example_params_def)
  show "fst (putTile row_major secret_store 20 0 0 (Some [1])) =
       Inl (Error (Thrown
         ''This PostgresStore source cannot save zoom %d, because its configured for zooms %d..%d''
         [D 20, D 0, D 14] (JSON_stringify secret_uri)) None)"
    by (simp add: putTile_def secret_store_def example_params_def js_lt_def js_gt_def
        throwError_def D_opt_def)
  show "occurs_in ''hunter2'' (JSON_stringify secret_uri)"
    by (simp add: JSON_stringify_def secret_uri_def)
  show "case PostgresStore secret_uri (secret_query\<lparr>database := Some ''9tiles''\<rparr>) healthy_conn of
        Inl e \<Rightarrow> map_option password (moduleUri e) = Some (Some ''hunter2'')
      | Inr s \<Rightarrow> False"
    by (simp add: PostgresStore_def secret_query_def letter_def attachUri_def Let_def)
qed

text \<open>
  C5. The specification states that a size-only point read of a stored row succeeds with the byte
  length of the blob. The code looks the statement up as \<^verbatim>\<open>self.queries.getSize\<close>,
  while the table of statements names it \<^verbatim>\<open>getTileSize\<close>: the client is called
  with \<^verbatim>\<open>undefined\<close> as its query and rejects it, although the row is there.
\<close>

theorem size_only_read_rejected:
  "map_of the_queries ''getSize'' = None
   \<and> map_of the_queries ''getTileSize'' = Some GetTileSizeSql
   \<and> fst (getTile row_major (example_store stocked_conn) 2 1 1) = Inr (Some [9], headers)
   \<and> fst (queryTileAsync (example_store stocked_conn) (size_only 2 5)) =
       Inl (Error (Rejected QueryError) (Some example_params))
   \<and> calls (client (snd (queryTileAsync (example_store stocked_conn) (size_only 2 5)))) =
       [OneOrNone_call None [VText ''tiles'', VNum 2, VNum 5]]"
proof (intro conjI)
  show "map_of the_queries ''getSize'' = None" by simp
  show "map_of the_queries ''getTileSize'' = Some GetTileSizeSql" by (simp add: the_queries_def)
  have a: "queries (example_store stocked_conn) = the_queries" by (simp add: example_store_def)
  have n: "next_ok (client (example_store stocked_conn))"
    by (simp add: next_ok_def example_store_def stocked_conn_def)
  have b: "minzoom (params (example_store stocked_conn)) = Some 0"
    "maxzoom (params (example_store stocked_conn)) = Some 14"
    by (simp_all add: example_store_def example_params_def)
  have i: "0 \<le> row_major 1 1 2" "of_int (row_major 1 1 2) < Math_pow4 2"
    by (simp_all add: row_major_def Math_pow4_def)
  show "fst (getTile row_major (example_store stocked_conn) 2 1 1) = Inr (Some [9], headers)"
    using getTile_point [where xyToIndex = row_major and x = 1 and y = 1 and z = 2, OF a n b _ _ i]
    by (simp add: example_store_def stocked_conn_def row_major_def)
  show "fst (queryTileAsync (example_store stocked_conn) (size_only 2 5)) =
       Inl (Error (Rejected QueryError) (Some example_params))"
    by (simp add: queryTileAsync_def size_only_def example_store_def stocked_conn_def
        Math_pow4_def oneOrNone_def begin_call_def run_def attachUri_def rejected_def Let_def)
  show "calls (client (snd (queryTileAsync (example_store stocked_conn) (size_only 2 5)))) =
       [OneOrNone_call None [VText ''tiles'', VNum 2, VNum 5]]"
    by (simp add: queryTileAsync_def size_only_def example_store_def stocked_conn_def
        Math_pow4_def oneOrNone_def begin_call_def run_def table_param_def example_params_def
        Let_def)
qed



end
